theory Spec2Isabelle
  imports Complex_Main
begin

section \<open>sc8pr: lines, polygons and plotted vectors\<close>

text \<open>
  A shallow embedding of \<^verbatim>\<open>sc8pr/shape.py\<close> (Line, Polygon) and
  \<^verbatim>\<open>sc8pr/plot/shape.py\<close> (PVector). Python floats are read as real
  numbers: every comparison and branch of the source is kept, rounding is not modelled.
  A coordinate pair (a Python tuple of two numbers) is a pair of reals. An exception
  is a value of \<open>py_error\<close> on the left of a sum.
\<close>

type_synonym xy = "real \<times> real"

datatype py_error = ValueError string | TypeError | ZeroDivisionError | IndexError

text \<open>\<^verbatim>\<open>math.hypot\<close>.\<close>

definition hypot :: "real \<Rightarrow> real \<Rightarrow> real" where
  "hypot a b = sqrt (a * a + b * b)"

subsection \<open>Line (shape.py)\<close>

text \<open>
  The attributes of a Line: \<^verbatim>\<open>pos\<close>, \<^verbatim>\<open>u\<close>, \<^verbatim>\<open>length\<close>
  (which \<^verbatim>\<open>intersect\<close> compares with \<^verbatim>\<open>None\<close>, hence an option),
  \<^verbatim>\<open>_size\<close> and the stroke \<^verbatim>\<open>weight\<close> inherited from Shape
  (class default 1).
\<close>

record line =
  pos :: xy
  u :: xy
  length_line :: "real option"
  size_line :: xy
  weight :: real

text \<open>
  The \<^verbatim>\<open>vector\<close> argument of the constructor is a number (a slope: the direction
  is \<open>(1, m)\<close>) or a pair.
\<close>

datatype vector_arg = Slope real | Direction xy

text \<open>
  \<^verbatim>\<open>Line.__init__(start, point=None, vector=None)\<close>. A tuple \<^verbatim>\<open>point\<close> is
  truthy, so the first branch is taken whenever a point is given. With neither argument
  \<^verbatim>\<open>ux, uy = None\<close> raises TypeError; a zero direction divides by zero.
\<close>

definition direction_of :: "xy \<Rightarrow> xy option \<Rightarrow> vector_arg option \<Rightarrow> py_error + xy" where
  "direction_of start pt vector =
     (case pt of
        Some p \<Rightarrow> Inr (fst p - fst start, snd p - snd start)
      | None \<Rightarrow>
          (case vector of
             Some (Slope m) \<Rightarrow> Inr (1, m)
           | Some (Direction d) \<Rightarrow> Inr d
           | None \<Rightarrow> Inl TypeError))"

definition Line_init :: "xy \<Rightarrow> xy option \<Rightarrow> vector_arg option \<Rightarrow> py_error + line" where
  "Line_init start pt vector =
     (case direction_of start pt vector of
        Inl e \<Rightarrow> Inl e
      | Inr (ux, uy) \<Rightarrow>
          (let h = hypot ux uy in
           if h = 0 then Inl ZeroDivisionError
           else Inr \<lparr>pos = start, u = (ux / h, uy / h), length_line = Some h,
                     size_line = (\<bar>ux\<bar>, \<bar>uy\<bar>), weight = 1\<rparr>))"

text \<open>\<^verbatim>\<open>Line.point(s)\<close>: the point at parameter \<open>s\<close>.\<close>

definition point :: "line \<Rightarrow> real \<Rightarrow> xy" where
  "point self s = (fst (pos self) + s * fst (u self), snd (pos self) + s * snd (u self))"

text \<open>\<^verbatim>\<open>Line.midpoint()\<close>: \<^verbatim>\<open>None / 2\<close> raises TypeError.\<close>

definition midpoint :: "line \<Rightarrow> py_error + xy" where
  "midpoint self =
     (case length_line self of None \<Rightarrow> Inl TypeError | Some l \<Rightarrow> Inr (point self (l / 2)))"

text \<open>\<^verbatim>\<open>Line.parameters(point)\<close>: the pair \<open>(s, d)\<close>.\<close>

definition parameters :: "line \<Rightarrow> xy \<Rightarrow> real \<times> real" where
  "parameters self q =
     (let dx = fst q - fst (pos self);
          dy = snd q - snd (pos self);
          ux = fst (u self);
          uy = snd (u self)
      in (ux * dx + uy * dy, ux * dy - uy * dx))"

text \<open>
  \<^verbatim>\<open>Line.closest(point)\<close>. The test \<^verbatim>\<open>if l:\<close> fails for \<^verbatim>\<open>None\<close> and
  for zero.
\<close>

definition closest :: "line \<Rightarrow> xy \<Rightarrow> xy" where
  "closest self q =
     (let s = fst (parameters self q) in
      case length_line self of
        None \<Rightarrow> point self s
      | Some l \<Rightarrow>
          if l = 0 then point self s
          else point self (if s < 0 then 0 else if s > l then l else s))"

text \<open>\<^verbatim>\<open>Line.resolution = 1e-10\<close>.\<close>

definition resolution :: real where
  "resolution = 1 / 10 ^ 10"

text \<open>
  What \<^verbatim>\<open>intersect\<close> returns: nothing (the implicit \<^verbatim>\<open>None\<close>), \<^verbatim>\<open>True\<close>,
  or a point.
\<close>

datatype isect = NoResult | Everywhere | At xy

text \<open>
  The test \<^verbatim>\<open>X.length is None or (s >= 0 and s <= X.length)\<close> of the non-parallel
  branch.
\<close>

definition in_bound :: "real option \<Rightarrow> real \<Rightarrow> bool" where
  "in_bound len s = (case len of None \<Rightarrow> True | Some l \<Rightarrow> 0 \<le> s \<and> s \<le> l)"

text \<open>
  \<^verbatim>\<open>Line.intersect(other)\<close>. \<^verbatim>\<open>if det:\<close> is the test \<open>det \<noteq> 0\<close>; a path
  that reaches the end of the method returns \<^verbatim>\<open>None\<close>.
\<close>

definition intersect :: "line \<Rightarrow> line \<Rightarrow> isect" where
  "intersect self other =
     (let u1x = fst (u self); u1y = snd (u self);
          u2x = fst (u other); u2y = snd (u other);
          det = u2x * u1y - u1x * u2y
      in
      if det \<noteq> 0 then
        (let p1 = pos self; p2 = pos other;
             dx = fst p2 - fst p1;
             dy = snd p2 - snd p1;
             s1 = (u2x * dy - u2y * dx) / det
         in
         if in_bound (length_line self) s1 then
           (let s2 = (u1x * dy - u1y * dx) / det in
            if in_bound (length_line other) s2 then At (point self s1) else NoResult)
         else NoResult)
      else
        (let sd = parameters self (point other 0); s0 = fst sd; d = snd sd in
         if d \<le> resolution then
           (case length_line self of
              None \<Rightarrow>
                (case length_line other of
                   None \<Rightarrow> Everywhere
                 | Some l2 \<Rightarrow> At (point other (l2 / 2)))
            | Some l1 \<Rightarrow>
                (case length_line other of
                   None \<Rightarrow> At (point self (l1 / 2))
                 | Some l2 \<Rightarrow>
                     (let s1 = fst (parameters self (point other l2));
                          lo = max 0 (min s0 s1);
                          hi = min l1 (max s0 s1)
                      in if hi \<ge> lo then At (point self ((lo + hi) / 2)) else NoResult)))
         else NoResult))"

text \<open>
  The quantities of the non-parallel branch, named for the statements below: the
  determinant and the two parameters that Cramer's rule gives.
\<close>

definition det_of :: "line \<Rightarrow> line \<Rightarrow> real" where
  "det_of self other = fst (u other) * snd (u self) - fst (u self) * snd (u other)"

definition s1_of :: "line \<Rightarrow> line \<Rightarrow> real" where
  "s1_of self other =
     (fst (u other) * (snd (pos other) - snd (pos self))
        - snd (u other) * (fst (pos other) - fst (pos self))) / det_of self other"

definition s2_of :: "line \<Rightarrow> line \<Rightarrow> real" where
  "s2_of self other =
     (fst (u self) * (snd (pos other) - snd (pos self))
        - snd (u self) * (fst (pos other) - fst (pos self))) / det_of self other"

text \<open>\<^verbatim>\<open>Line.contains(pos)\<close>, which overrides \<^verbatim>\<open>Shape.contains\<close>.\<close>

definition contains :: "line \<Rightarrow> xy \<Rightarrow> bool" where
  "contains self q = (\<bar>snd (parameters self q)\<bar> \<le> 1 + weight self / 2)"

subsection \<open>Polygon (shape.py)\<close>

text \<open>
  The attributes of a Polygon: the anchor \<^verbatim>\<open>_pos\<close>, the bounding rectangle
  \<^verbatim>\<open>_rect\<close> (kept as the corner and size handed to \<^verbatim>\<open>pygame.Rect\<close>), the list
  \<^verbatim>\<open>vertices\<close> and the cumulative \<^verbatim>\<open>_angle\<close> (class default 0). The caches of
  rendered images and segments, which \<^verbatim>\<open>dumpCache\<close> clears, are not modelled.
\<close>

record polygon =
  poly_pos :: xy
  rect :: "xy \<times> xy"
  vertices :: "xy list"
  angle :: real

text \<open>The \<^verbatim>\<open>pos\<close> argument of the constructor: an index into the points, or a point.\<close>

datatype pos_arg = Index int | Anchor xy

text \<open>\<^verbatim>\<open>min\<close> and \<^verbatim>\<open>max\<close> of a sequence raise ValueError when it is empty.\<close>

fun py_min :: "real list \<Rightarrow> py_error + real" where
  "py_min [] = Inl (ValueError ''min() arg is an empty sequence'')"
| "py_min (x # xs) = Inr (foldl min x xs)"

fun py_max :: "real list \<Rightarrow> py_error + real" where
  "py_max [] = Inl (ValueError ''max() arg is an empty sequence'')"
| "py_max (x # xs) = Inr (foldl max x xs)"

text \<open>A list read by index: a negative index counts from the end.\<close>

definition py_index :: "'a list \<Rightarrow> int \<Rightarrow> py_error + 'a" where
  "py_index xs i =
     (if 0 \<le> i \<and> i < int (length xs) then Inr (xs ! nat i)
      else if i < 0 \<and> - int (length xs) \<le> i then Inr (xs ! nat (int (length xs) + i))
      else Inl IndexError)"

text \<open>\<^verbatim>\<open>Polygon.__init__(pts, pos=None)\<close>, for a new object.\<close>

definition Polygon_init :: "xy list \<Rightarrow> pos_arg option \<Rightarrow> py_error + polygon" where
  "Polygon_init pts pos_opt =
     (case py_min (map fst pts) of Inl e \<Rightarrow> Inl e | Inr x0 \<Rightarrow>
     (case py_max (map fst pts) of Inl e \<Rightarrow> Inl e | Inr x1 \<Rightarrow>
     (case py_min (map snd pts) of Inl e \<Rightarrow> Inl e | Inr y0 \<Rightarrow>
     (case py_max (map snd pts) of Inl e \<Rightarrow> Inl e | Inr y1 \<Rightarrow>
     (case (case pos_opt of
              None \<Rightarrow> Inr ((x0 + x1) / 2, (y0 + y1) / 2)
            | Some (Index i) \<Rightarrow> py_index pts i
            | Some (Anchor p) \<Rightarrow> Inr p) of
        Inl e \<Rightarrow> Inl e
      | Inr p \<Rightarrow>
          Inr \<lparr>poly_pos = p, rect = ((x0, y0), (\<bar>x1 - x0\<bar>, \<bar>y1 - y0\<bar>)), vertices = pts,
                angle = 0\<rparr>)))))"

text \<open>
  \<^verbatim>\<open>self.__init__(pts, pos)\<close> on an existing polygon: the constructor does not assign
  \<^verbatim>\<open>_angle\<close>, which keeps its value.
\<close>

definition Polygon_reinit :: "polygon \<Rightarrow> xy list \<Rightarrow> pos_arg option \<Rightarrow> py_error + polygon" where
  "Polygon_reinit self pts pos_opt =
     (case Polygon_init pts pos_opt of
        Inl e \<Rightarrow> Inl e
      | Inr P \<Rightarrow> Inr (P\<lparr>angle := angle self\<rparr>))"

text \<open>
  A rotation of the plane about the origin by an angle in degrees, counterclockwise in
  the mathematical orientation: what \<^verbatim>\<open>pygame.math.Vector2.rotate_ip\<close> does to a
  vector.
\<close>

definition rotate_xy :: "real \<Rightarrow> xy \<Rightarrow> xy" where
  "rotate_xy a p =
     (let c = cos (a * pi / 180); s = sin (a * pi / 180)
      in (c * fst p - s * snd p, s * fst p + c * snd p))"

text \<open>
  Modelled from the spec: \<^verbatim>\<open>sc8pr.geom.transform2dGen\<close> and \<^verbatim>\<open>transform2d\<close>
  are not among the sources. The spec describes their use in \<^verbatim>\<open>rotate\<close> as a rigid
  rotation: shift to the origin, rotate, shift back. Each point is moved by
  \<^verbatim>\<open>preShift\<close>, rotated about the origin by \<^verbatim>\<open>rotate\<close> (degrees, as
  \<^verbatim>\<open>angle / DEG\<close> in \<^verbatim>\<open>shape.arrow\<close> shows for the angles of this library), then
  moved by \<^verbatim>\<open>shift\<close>.
\<close>

definition transform2dGen :: "xy list \<Rightarrow> xy \<Rightarrow> real \<Rightarrow> xy \<Rightarrow> xy list" where
  "transform2dGen pts preShift a shift =
     map (\<lambda>p. let r = rotate_xy a (fst p + fst preShift, snd p + snd preShift)
              in (fst r + fst shift, snd r + snd shift)) pts"

text \<open>
  Modelled from the spec: \<^verbatim>\<open>transform2d\<close> is the same transformation of one point.
  \<^verbatim>\<open>preShift=True\<close>, as \<^verbatim>\<open>PVector.rotate\<close> passes it, stands for the opposite of
  \<^verbatim>\<open>shift\<close>: the spec has the tail re-anchored around the pivot.
\<close>

definition transform2d :: "xy \<Rightarrow> xy \<Rightarrow> real \<Rightarrow> xy \<Rightarrow> xy" where
  "transform2d p preShift a shift =
     (let r = rotate_xy a (fst p + fst preShift, snd p + snd preShift)
      in (fst r + fst shift, snd r + snd shift))"

text \<open>\<^verbatim>\<open>Polygon.rotate(angle)\<close>.\<close>

definition rotate_polygon :: "polygon \<Rightarrow> real \<Rightarrow> py_error + polygon" where
  "rotate_polygon self a =
     (let shift2 = poly_pos self;
          shift1 = (- fst shift2, - snd shift2);
          pts = transform2dGen (vertices self) shift1 a shift2
      in case Polygon_reinit self pts (Some (Anchor (poly_pos self))) of
           Inl e \<Rightarrow> Inl e
         | Inr P \<Rightarrow> Inr (P\<lparr>angle := angle P + a\<rparr>))"

text \<open>\<^verbatim>\<open>math.atan2\<close>, on reals (no signed zero).\<close>

definition atan2 :: "real \<Rightarrow> real \<Rightarrow> real" where
  "atan2 y x =
     (if 0 < x then arctan (y / x)
      else if x < 0 then (if 0 \<le> y then arctan (y / x) + pi else arctan (y / x) - pi)
      else if 0 < y then pi / 2
      else if y < 0 then - (pi / 2)
      else 0)"

text \<open>The \<^verbatim>\<open>tail\<close> argument of \<^verbatim>\<open>Polygon.arrow\<close>: a number, or a point.\<close>

datatype tail_arg = Length real | Target xy

text \<open>
  \<^verbatim>\<open>Polygon.arrow(pos, tail, width, head, flatness)\<close>. \<^verbatim>\<open>sc8pr.geom.delta\<close>, used
  only when the tail is a point, is not among the sources and is a parameter.
\<close>

definition Polygon_arrow ::
  "(xy \<Rightarrow> xy \<Rightarrow> xy) \<Rightarrow> xy \<Rightarrow> tail_arg \<Rightarrow> real \<Rightarrow> real \<Rightarrow> real \<Rightarrow> xy list \<times> real" where
  "Polygon_arrow delta p tail width head flatness =
     (let ta = (case tail of
                  Length t \<Rightarrow> (t, 0)
                | Target q \<Rightarrow>
                    (let d = delta p q in (hypot (fst d) (snd d), atan2 (snd d) (fst d))));
          tail1 = fst ta;
          a = snd ta;
          width1 = width * (tail1 / 2);
          head1 = head * tail1;
          y = head1 * flatness / 2
      in ([(0, 0), (- head1, y), (- head1, width1), (- tail1, width1),
           (- tail1, - width1), (- head1, - width1), (- head1, - y)], a))"

subsection \<open>PVector (plot/shape.py)\<close>

text \<open>
  A PVector is a \<^verbatim>\<open>pygame.math.Vector2\<close> (its two components) with a \<^verbatim>\<open>tail\<close>
  (class default \<open>(0, 0)\<close>).
\<close>

record pvector =
  vec :: xy
  tail :: xy

text \<open>The first argument of the constructor: a number, a Vector2 or a PVector.\<close>

datatype mag_arg = Number real | Vec2 xy | PVec pvector

text \<open>\<^verbatim>\<open>Vector2.from_polar((r, phi))\<close>, with \<open>phi\<close> in degrees.\<close>

definition from_polar :: "real \<Rightarrow> real \<Rightarrow> xy" where
  "from_polar r phi = (r * cos (phi * pi / 180), r * sin (phi * pi / 180))"

text \<open>\<^verbatim>\<open>PVector.__init__(mag=None, theta=0, xy=(0,0))\<close>.\<close>

definition PVector_init :: "mag_arg option \<Rightarrow> real \<Rightarrow> xy \<Rightarrow> pvector" where
  "PVector_init mag theta xy0 =
     (case mag of
        Some (PVec p) \<Rightarrow> \<lparr>vec = vec p, tail = tail p\<rparr>
      | Some (Vec2 v) \<Rightarrow> \<lparr>vec = v, tail = (0, 0)\<rparr>
      | None \<Rightarrow> \<lparr>vec = xy0, tail = (0, 0)\<rparr>
      | Some (Number m) \<Rightarrow>
          (if m < 0 then \<lparr>vec = from_polar (- m) (theta + 180), tail = (0, 0)\<rparr>
           else \<lparr>vec = from_polar m theta, tail = (0, 0)\<rparr>))"

text \<open>The properties \<^verbatim>\<open>csPos\<close> and \<^verbatim>\<open>tip\<close>.\<close>

definition csPos :: "pvector \<Rightarrow> xy" where
  "csPos self = (fst (tail self) + fst (vec self) / 2, snd (tail self) + snd (vec self) / 2)"

definition tip :: "pvector \<Rightarrow> xy" where
  "tip self = (fst (tail self) + fst (vec self), snd (tail self) + snd (vec self))"

text \<open>\<^verbatim>\<open>PVector.rotate(angle, xy=None)\<close>.\<close>

definition rotate_pvector :: "pvector \<Rightarrow> real \<Rightarrow> xy option \<Rightarrow> pvector" where
  "rotate_pvector self a xy_opt =
     (let c = (case xy_opt of None \<Rightarrow> csPos self | Some p \<Rightarrow> p)
      in \<lparr>vec = rotate_xy a (vec self),
          tail = transform2d (tail self) (- fst c, - snd c) a c\<rparr>)"

text \<open>\<^verbatim>\<open>PVector.sum(args)\<close>.\<close>

definition PVector_sum :: "pvector list \<Rightarrow> pvector" where
  "PVector_sum args =
     PVector_init None 0
       (foldl (\<lambda>s v. (fst s + fst (vec v), snd s + snd (vec v))) (0, 0) args)"

text \<open>
  \<^verbatim>\<open>-1 * v\<close>: \<^verbatim>\<open>PVector.__rmul__\<close> with a number makes a new PVector from the scaled
  components.
\<close>

definition rmul :: "real \<Rightarrow> pvector \<Rightarrow> pvector" where
  "rmul k v = PVector_init None 0 (k * fst (vec v), k * snd (vec v))"

text \<open>
  \<^verbatim>\<open>tipToTail\<close> assigns to the \<^verbatim>\<open>tail\<close> of the objects in the list. The objects
  live in a store, from addresses to values; the list holds addresses, so that one
  object can stand at several places of the list.
\<close>

type_synonym store = "nat \<Rightarrow> pvector"

fun tipToTail_loop :: "store \<Rightarrow> nat \<Rightarrow> nat list \<Rightarrow> store" where
  "tipToTail_loop h v0 [] = h"
| "tipToTail_loop h v0 (v # vs) = tipToTail_loop (h(v := (h v)\<lparr>tail := tip (h v0)\<rparr>)) v vs"

text \<open>\<^verbatim>\<open>PVector.tipToTail(vecs)\<close>: the store after the call; the list is returned as it is.\<close>

definition tipToTail :: "store \<Rightarrow> nat list \<Rightarrow> store" where
  "tipToTail h vecs = (if length vecs > 1 then tipToTail_loop h (hd vecs) (tl vecs) else h)"

text \<open>
  A list of newly made vectors as a store: the vector at place \<open>i\<close> of the list is the
  object at address \<open>i\<close>.
\<close>

definition new_store :: "pvector list \<Rightarrow> store" where
  "new_store vs = (\<lambda>a. if a < length vs then vs ! a else \<lparr>vec = (0, 0), tail = (0, 0)\<rparr>)"

subsection \<open>Parsing vectors (plot/shape.py)\<close>

text \<open>
  The regular expressions of the module use character classes, concatenation, the
  optional \<^verbatim>\<open>{0,1}\<close> and the greedy \<^verbatim>\<open>*\<close> and \<^verbatim>\<open>+\<close> on a character class.
\<close>

datatype rx = Cls string | Seq rx rx | Opt rx | Star string

text \<open>
  A backtracking matcher, as \<^verbatim>\<open>re\<close> is: the remainders of the input after each way
  of matching a prefix, in the order in which the matcher tries them (a greedy operator
  tries the longer match first). \<^verbatim>\<open>match\<close> takes the first.
\<close>

fun rx_match :: "rx \<Rightarrow> string \<Rightarrow> string list" where
  "rx_match (Cls cs) s =
     (case s of [] \<Rightarrow> [] | c # t \<Rightarrow> if c \<in> set cs then [t] else [])"
| "rx_match (Seq a b) s = concat (map (rx_match b) (rx_match a s))"
| "rx_match (Opt a) s = rx_match a s @ [s]"
| "rx_match (Star cs) s =
     (case s of
        [] \<Rightarrow> [s]
      | c # t \<Rightarrow> if c \<in> set cs then rx_match (Star cs) t @ [s] else [s])"

text \<open>\<^verbatim>\<open>pattern.match(expr)\<close> followed by \<^verbatim>\<open>m.group()\<close>: the matched prefix.\<close>

definition re_match :: "rx \<Rightarrow> string \<Rightarrow> string option" where
  "re_match r s =
     (case rx_match r s of
        [] \<Rightarrow> None
      | rest # _ \<Rightarrow> Some (take (length s - length rest) s))"

definition digits :: string where
  "digits = ''0123456789''"

text \<open>
  \<^verbatim>\<open>_sign = "[-|\+]{0,1}"\<close>: the class holds the three characters minus, bar and
  plus.
\<close>

definition sign_rx :: rx where
  "sign_rx = Opt (Cls ''-|+'')"

text \<open>\<^verbatim>\<open>_num = _sign + "\d+\.{0,1}\d*([e|E]" + _sign + "[\d]*){0,1}"\<close>.\<close>

definition num_rx :: rx where
  "num_rx =
     Seq sign_rx
       (Seq (Seq (Cls digits) (Star digits))
          (Seq (Opt (Cls ''.''))
             (Seq (Star digits)
                (Opt (Seq (Cls ''e|E'') (Seq sign_rx (Star digits)))))))"

text \<open>The list \<^verbatim>\<open>_re\<close>: the Cartesian form, then the polar form.\<close>

definition re_list :: "rx list" where
  "re_list =
     [Seq (Cls ''('') (Seq num_rx (Seq (Cls '','') (Seq num_rx (Cls '')'')))),
      Seq num_rx (Seq (Cls ''@'') num_rx)]"

text \<open>
  \<^verbatim>\<open>float(s)\<close> on the strings the patterns let through (signs, digits, a point, an
  exponent mark): an optional sign \<^verbatim>\<open>+\<close> or \<^verbatim>\<open>-\<close>, digits with an optional point,
  an optional exponent with at least one digit. Anything else raises ValueError. The
  value is the decimal number as a real.
\<close>

definition is_digit :: "char \<Rightarrow> bool" where
  "is_digit c = (c \<in> set digits)"

definition digits_value :: "string \<Rightarrow> nat" where
  "digits_value ds = foldl (\<lambda>n c. 10 * n + (of_char c - 48)) 0 ds"

definition quoted :: "string \<Rightarrow> string" where
  "quoted s = [CHR 0x27] @ s @ [CHR 0x27]"

definition float_error :: "string \<Rightarrow> py_error" where
  "float_error s = ValueError (''could not convert string to float: '' @ quoted s)"

definition py_float :: "string \<Rightarrow> py_error + real" where
  "py_float s =
     (let neg = (s \<noteq> [] \<and> hd s = CHR ''-'');
          s1 = (if s \<noteq> [] \<and> (hd s = CHR ''-'' \<or> hd s = CHR ''+'') then tl s else s);
          ip = takeWhile is_digit s1;
          s2 = dropWhile is_digit s1;
          dot = (s2 \<noteq> [] \<and> hd s2 = CHR ''.'');
          fp = (if dot then takeWhile is_digit (tl s2) else []);
          s3 = (if dot then dropWhile is_digit (tl s2) else s2);
          ex = (s3 \<noteq> [] \<and> (hd s3 = CHR ''e'' \<or> hd s3 = CHR ''E''));
          s4 = (if ex then tl s3 else s3);
          eneg = (ex \<and> s4 \<noteq> [] \<and> hd s4 = CHR ''-'');
          s5 = (if ex \<and> s4 \<noteq> [] \<and> (hd s4 = CHR ''-'' \<or> hd s4 = CHR ''+'') then tl s4 else s4);
          ep = (if ex then takeWhile is_digit s5 else []);
          s6 = (if ex then dropWhile is_digit s5 else s5);
          m = real (digits_value ip) + real (digits_value fp) / 10 ^ length fp;
          v = (if eneg then m / 10 ^ digits_value ep else m * 10 ^ digits_value ep)
      in if (ip = [] \<and> fp = []) \<or> (ex \<and> ep = []) \<or> s6 \<noteq> [] then Inl (float_error s)
         else Inr (if neg then - v else v))"

text \<open>\<^verbatim>\<open>str.split(sep)\<close> for a separator of one character.\<close>

fun split_on :: "char \<Rightarrow> string \<Rightarrow> string list" where
  "split_on sep [] = [[]]"
| "split_on sep (c # cs) =
     (if c = sep then [] # split_on sep cs
      else (case split_on sep cs of p # ps \<Rightarrow> (c # p) # ps | [] \<Rightarrow> [[c]]))"

text \<open>
  \<^verbatim>\<open>[float(parts[i]) for i in (0, 1)]\<close>: the first two parts as numbers, the first
  failure raised.
\<close>

definition two_floats :: "string list \<Rightarrow> py_error + (real \<times> real)" where
  "two_floats parts =
     (case py_index parts 0 of Inl e \<Rightarrow> Inl e | Inr p0 \<Rightarrow>
     (case py_float p0 of Inl e \<Rightarrow> Inl e | Inr a \<Rightarrow>
     (case py_index parts 1 of Inl e \<Rightarrow> Inl e | Inr p1 \<Rightarrow>
     (case py_float p1 of Inl e \<Rightarrow> Inl e | Inr b \<Rightarrow> Inr (a, b)))))"

text \<open>
  \<^verbatim>\<open>_parse(expr, form)\<close>: \<^verbatim>\<open>(None, None)\<close> is \<open>None\<close>, \<^verbatim>\<open>(n, v)\<close> is
  \<open>Some (n, v)\<close>. \<^verbatim>\<open>m[1:-1]\<close> drops the first and the last character.
\<close>

definition parse_one :: "string \<Rightarrow> nat \<Rightarrow> py_error + (nat \<times> pvector) option" where
  "parse_one expr form =
     (case re_match (re_list ! form) expr of
        None \<Rightarrow> Inr None
      | Some m \<Rightarrow>
          (let n = length m in
           if form \<noteq> 0 then
             (case two_floats (split_on CHR ''@'' m) of
                Inl e \<Rightarrow> Inl e
              | Inr (a, b) \<Rightarrow> Inr (Some (n, PVector_init (Some (Number a)) b (0, 0))))
           else
             (case two_floats (split_on CHR '','' (butlast (tl m))) of
                Inl e \<Rightarrow> Inl e
              | Inr (a, b) \<Rightarrow> Inr (Some (n, PVector_init None 0 (a, b))))))"

text \<open>
  \<^verbatim>\<open>if not n:\<close> and \<^verbatim>\<open>if n:\<close> test a result of \<^verbatim>\<open>_parse\<close>: \<^verbatim>\<open>None\<close> and
  zero are false.
\<close>

definition truthy :: "(nat \<times> pvector) option \<Rightarrow> bool" where
  "truthy r = (case r of None \<Rightarrow> False | Some (n, v) \<Rightarrow> n \<noteq> 0)"

text \<open>\<^verbatim>\<open>re.subn("\s*", "", string)[0]\<close> removes the white space of the string.\<close>

definition is_space :: "char \<Rightarrow> bool" where
  "is_space c = (of_char c \<in> {9, 10, 11, 12, 13, 28, 29, 30, 31, 32, 133, 160 :: nat})"

text \<open>
  The loop of \<^verbatim>\<open>PVector.parse\<close>: the text left in \<^verbatim>\<open>expr\<close> and the list
  \<^verbatim>\<open>vecs\<close> when the loop ends.
\<close>

function parse_loop :: "string \<Rightarrow> pvector list \<Rightarrow> py_error + (string \<times> pvector list)" where
  "parse_loop expr vecs =
     (if expr = [] then Inr (expr, vecs)
      else
        (let neg = (hd expr = CHR ''-'');
             expr1 = (if hd expr \<in> set ''+-'' then tl expr else expr)
         in case parse_one expr1 0 of
              Inl e \<Rightarrow> Inl e
            | Inr r0 \<Rightarrow>
                (case (if \<not> truthy r0 then parse_one expr1 1 else Inr r0) of
                   Inl e \<Rightarrow> Inl e
                 | Inr r \<Rightarrow>
                     (case r of
                        None \<Rightarrow> Inr (expr1, vecs)
                      | Some (n, v) \<Rightarrow>
                          if n = 0 then Inr (expr1, vecs)
                          else parse_loop (drop n expr1)
                                 (vecs @ [if neg then rmul (- 1) v else v])))))"
  by pat_completeness auto
termination
  by (relation "measure (\<lambda>(expr, vecs). length expr)") (auto split: if_splits)

declare parse_loop.simps [simp del]

text \<open>
  \<^verbatim>\<open>PVector.parse(string)\<close>. The vectors of the list are new objects; the result is
  the list of their values after \<^verbatim>\<open>tipToTail\<close>.
\<close>

definition parse_error :: "string \<Rightarrow> py_error" where
  "parse_error s = ValueError (''can't parse string '' @ quoted s @ '' as PVectors'')"

definition parse :: "string \<Rightarrow> py_error + pvector list" where
  "parse string =
     (case parse_loop (filter (\<lambda>c. \<not> is_space c) string) [] of
        Inl e \<Rightarrow> Inl e
      | Inr (expr, vecs) \<Rightarrow>
          if expr \<noteq> [] then Inl (parse_error string)
          else Inr (map (tipToTail (new_store vecs) [0..<length vecs]) [0..<length vecs]))"

text \<open>
  Notions the statements below use: the Euclidean distance of two points, and the
  invariant of the data model that the direction of a line has length one.
\<close>

definition distance :: "xy \<Rightarrow> xy \<Rightarrow> real" where
  "distance a b = hypot (fst b - fst a) (snd b - snd a)"

definition unit_u :: "line \<Rightarrow> bool" where
  "unit_u self = (fst (u self) * fst (u self) + snd (u self) * snd (u self) = 1)"

section \<open>Properties of Line\<close>

subsection \<open>The constructor\<close>

lemma hypot_nonneg: "0 \<le> hypot a b"
  by (simp add: hypot_def)

lemma hypot_square: "hypot a b * hypot a b = a * a + b * b"
proof -
  have "0 \<le> a * a + b * b" by simp
  then show ?thesis unfolding hypot_def by simp
qed

lemma hypot_unit:
  assumes "hypot a b \<noteq> 0"
  shows "hypot (a / hypot a b) (b / hypot a b) = 1"
proof -
  define h where "h = hypot a b"
  have hh: "h * h = a * a + b * b" unfolding h_def by (rule hypot_square)
  have h0: "h \<noteq> 0" using assms by (simp add: h_def)
  have "(a / h) * (a / h) + (b / h) * (b / h) = (a * a + b * b) / (h * h)"
    by (simp add: add_divide_distrib)
  also have "\<dots> = 1" using h0 by (simp add: hh [symmetric])
  finally show ?thesis unfolding hypot_def h_def by simp
qed

lemma hypot_zero_iff: "hypot a b = 0 \<longleftrightarrow> a = 0 \<and> b = 0"
proof -
  have "a * a + b * b = 0 \<longleftrightarrow> a = 0 \<and> b = 0"
    using sum_squares_eq_zero_iff [of a b] by simp
  then show ?thesis by (simp add: hypot_def)
qed

text \<open>
  The constructor returns a line for every direction other than zero, and raises
  ZeroDivisionError for the zero direction (two equal points).
\<close>

lemma Line_init_returns:
  assumes "direction_of start pt vector = Inr (ux, uy)" and "ux \<noteq> 0 \<or> uy \<noteq> 0"
  shows "Line_init start pt vector
         = Inr \<lparr>pos = start, u = (ux / hypot ux uy, uy / hypot ux uy),
                length_line = Some (hypot ux uy), size_line = (\<bar>ux\<bar>, \<bar>uy\<bar>), weight = 1\<rparr>"
  using assms by (auto simp: Line_init_def Let_def hypot_zero_iff)

lemma Line_init_zero_direction:
  assumes "direction_of start pt vector = Inr (0, 0)"
  shows "Line_init start pt vector = Inl ZeroDivisionError"
  using assms by (simp add: Line_init_def Let_def hypot_zero_iff)

lemma Line_init_Inr:
  assumes "Line_init start pt vector = Inr L"
  obtains ux uy where "direction_of start pt vector = Inr (ux, uy)" and "hypot ux uy \<noteq> 0"
    and "L = \<lparr>pos = start, u = (ux / hypot ux uy, uy / hypot ux uy),
              length_line = Some (hypot ux uy), size_line = (\<bar>ux\<bar>, \<bar>uy\<bar>), weight = 1\<rparr>"
  using assms
  by (auto simp: Line_init_def Let_def split: sum.splits prod.splits if_splits)

lemma Line_init_unit:
  assumes "Line_init start pt vector = Inr L"
  shows "unit_u L"
proof -
  from assms obtain ux uy where h: "hypot ux uy \<noteq> 0"
    and L: "u L = (ux / hypot ux uy, uy / hypot ux uy)"
    by (rule Line_init_Inr) simp
  have "hypot (fst (u L)) (snd (u L)) * hypot (fst (u L)) (snd (u L)) = 1"
    using hypot_unit [OF h] by (simp add: L)
  then show ?thesis by (simp add: unit_u_def hypot_square)
qed

lemma sqrt_25: "sqrt 25 = 5"
  using real_sqrt_abs [of 5] by simp

text \<open>
  Claim C4, as the code has it. The constructor sets \<^verbatim>\<open>length\<close> to
  \<^verbatim>\<open>hypot(ux, uy)\<close> on every path: the distance of the two points when an end point
  is given, the norm of the direction when a vector is given, \<open>hypot 1 m\<close> for a
  slope \<open>m\<close>. The direction \<^verbatim>\<open>u\<close> has length one, and \<^verbatim>\<open>length\<close> is never
  \<^verbatim>\<open>None\<close>.
\<close>

theorem Line_init_length_is_norm:
  assumes "Line_init start pt vector = Inr L"
  shows "pos L = start \<and> unit_u L
       \<and> (\<exists>ux uy. direction_of start pt vector = Inr (ux, uy) \<and> 0 < hypot ux uy
             \<and> length_line L = Some (hypot ux uy)
             \<and> u L = (ux / hypot ux uy, uy / hypot ux uy))
       \<and> (\<forall>p. pt = Some p \<longrightarrow> length_line L = Some (distance start p))
       \<and> (\<forall>d. pt = None \<and> vector = Some (Direction d)
             \<longrightarrow> length_line L = Some (hypot (fst d) (snd d)))
       \<and> (\<forall>m. pt = None \<and> vector = Some (Slope m) \<longrightarrow> length_line L = Some (hypot 1 m))"
proof -
  from assms obtain ux uy where d: "direction_of start pt vector = Inr (ux, uy)"
    and h: "hypot ux uy \<noteq> 0"
    and L: "L = \<lparr>pos = start, u = (ux / hypot ux uy, uy / hypot ux uy),
                 length_line = Some (hypot ux uy), size_line = (\<bar>ux\<bar>, \<bar>uy\<bar>), weight = 1\<rparr>"
    by (rule Line_init_Inr)
  have pos: "0 < hypot ux uy" using h hypot_nonneg [of ux uy] by simp
  have a: "\<exists>ux uy. direction_of start pt vector = Inr (ux, uy) \<and> 0 < hypot ux uy
             \<and> length_line L = Some (hypot ux uy)
             \<and> u L = (ux / hypot ux uy, uy / hypot ux uy)"
    using d pos L by auto
  have b: "length_line L = Some (distance start p)" if "pt = Some p" for p
    using d that by (auto simp: L direction_of_def distance_def)
  have c: "length_line L = Some (hypot (fst d') (snd d'))"
    if "pt = None \<and> vector = Some (Direction d')" for d'
    using d that by (auto simp: L direction_of_def)
  have e: "length_line L = Some (hypot 1 m)" if "pt = None \<and> vector = Some (Slope m)" for m
    using d that by (auto simp: L direction_of_def)
  show ?thesis using a b c e Line_init_unit [OF assms] by (simp add: L)
qed

theorem Line_init_length_is_norm_witness:
  "Line_init (0, 0) None (Some (Slope 0))
     = Inr \<lparr>pos = (0, 0), u = (1, 0), length_line = Some 1, size_line = (1, 0), weight = 1\<rparr>
   \<and> unit_u \<lparr>pos = (0, 0), u = (1, 0), length_line = Some 1, size_line = (1, 0), weight = 1\<rparr>
   \<and> length_line \<lparr>pos = (0, 0), u = (1, 0), length_line = Some 1, size_line = (1, 0), weight = 1\<rparr>
     = Some (hypot 1 0)"
proof -
  have i: "Line_init (0, 0) None (Some (Slope 0))
     = Inr \<lparr>pos = (0, 0), u = (1, 0), length_line = Some 1, size_line = (1, 0), weight = 1\<rparr>"
    by (simp add: Line_init_def direction_of_def hypot_def Let_def)
  show ?thesis using i Line_init_length_is_norm [OF i] by simp
qed

text \<open>
  Claim C4 as the spec states it fails: a line built from a start point and a direction
  vector has the finite length 5, not \<^verbatim>\<open>None\<close>.
\<close>

theorem Line_init_vector_not_null:
  "Line_init (0, 0) None (Some (Direction (3, 4)))
     = Inr \<lparr>pos = (0, 0), u = (3 / 5, 4 / 5), length_line = Some 5, size_line = (3, 4),
            weight = 1\<rparr>"
  by (simp add: Line_init_def direction_of_def hypot_def sqrt_25 Let_def)

subsection \<open>Intersection of non-parallel lines\<close>

lemma intersect_nonparallel:
  assumes "det_of self other \<noteq> 0"
  shows "intersect self other =
     (if in_bound (length_line self) (s1_of self other)
         \<and> in_bound (length_line other) (s2_of self other)
      then At (point self (s1_of self other)) else NoResult)"
  using assms by (simp add: intersect_def det_of_def s1_of_def s2_of_def Let_def)

lemma cramer_solves:
  assumes "det_of self other \<noteq> 0"
  shows "point self (s1_of self other) = point other (s2_of self other)"
  using assms by (simp add: point_def s1_of_def s2_of_def det_of_def field_simps)

lemma cramer_unique:
  assumes "det_of self other \<noteq> 0" and "point self a = point other b"
  shows "a = s1_of self other \<and> b = s2_of self other"
proof -
  obtain p1x p1y where p1: "pos self = (p1x, p1y)" by (cases "pos self")
  obtain p2x p2y where p2: "pos other = (p2x, p2y)" by (cases "pos other")
  obtain u1x u1y where u1: "u self = (u1x, u1y)" by (cases "u self")
  obtain u2x u2y where u2: "u other = (u2x, u2y)" by (cases "u other")
  from assms(2) have ex: "p1x + a * u1x = p2x + b * u2x"
    and ey: "p1y + a * u1y = p2y + b * u2y"
    by (simp_all add: point_def p1 p2 u1 u2)
  from assms(1) have d: "u2x * u1y - u1x * u2y \<noteq> 0" by (simp add: det_of_def u1 u2)
  have dx: "p2x - p1x = a * u1x - b * u2x" using ex by simp
  have dy: "p2y - p1y = a * u1y - b * u2y" using ey by simp
  have "u2x * (p2y - p1y) - u2y * (p2x - p1x) = a * (u2x * u1y - u1x * u2y)"
    unfolding dx dy by (simp add: algebra_simps)
  then have A: "a = (u2x * (p2y - p1y) - u2y * (p2x - p1x)) / (u2x * u1y - u1x * u2y)"
    using d by (simp add: field_simps)
  have "u1x * (p2y - p1y) - u1y * (p2x - p1x) = b * (u2x * u1y - u1x * u2y)"
    unfolding dx dy by (simp add: algebra_simps)
  then have B: "b = (u1x * (p2y - p1y) - u1y * (p2x - p1x)) / (u2x * u1y - u1x * u2y)"
    using d by (simp add: field_simps)
  show ?thesis using A B by (simp add: s1_of_def s2_of_def det_of_def p1 p2 u1 u2)
qed

lemma in_bound_None: "in_bound None s"
  by (simp add: in_bound_def)

lemma in_bound_Some: "in_bound (Some l) s \<longleftrightarrow> 0 \<le> s \<and> s \<le> l"
  by (simp add: in_bound_def)

lemma intersect_nonparallel_explicit:
  assumes "det_of self other \<noteq> 0"
  shows "intersect self other =
     (if (case length_line self of
            None \<Rightarrow> True
          | Some l \<Rightarrow> 0 \<le> s1_of self other \<and> s1_of self other \<le> l)
         \<and> (case length_line other of
               None \<Rightarrow> True
             | Some l \<Rightarrow> 0 \<le> s2_of self other \<and> s2_of self other \<le> l)
      then At (point self (s1_of self other)) else NoResult)"
  using intersect_nonparallel [OF assms] by (simp add: in_bound_def)

text \<open>
  Outside the bound of either operand there is no result; the two ends of the range
  are inside.
\<close>

lemma intersect_nonparallel_outside_self:
  assumes "det_of self other \<noteq> 0" and "length_line self = Some l"
    and "s1_of self other < 0 \<or> l < s1_of self other"
  shows "intersect self other = NoResult"
  using intersect_nonparallel_explicit [OF assms(1)] assms(2,3) by auto

lemma intersect_nonparallel_outside_other:
  assumes "det_of self other \<noteq> 0" and "length_line other = Some l"
    and "s2_of self other < 0 \<or> l < s2_of self other"
  shows "intersect self other = NoResult"
  using intersect_nonparallel_explicit [OF assms(1)] assms(2,3) by auto

lemma intersect_nonparallel_inside:
  assumes "det_of self other \<noteq> 0"
    and "length_line self = Some l1" and "0 \<le> s1_of self other" and "s1_of self other \<le> l1"
    and "length_line other = Some l2" and "0 \<le> s2_of self other" and "s2_of self other \<le> l2"
  shows "intersect self other = At (point self (s1_of self other))"
  using intersect_nonparallel_explicit [OF assms(1)] assms(2-) by simp

lemma det_axes:
  "det_of \<lparr>pos = p1, u = (1, 0), length_line = l1, size_line = z1, weight = w1\<rparr>
          \<lparr>pos = p2, u = (0, 1), length_line = l2, size_line = z2, weight = w2\<rparr> = - 1"
  by (simp add: det_of_def)

lemma s1_axes:
  "s1_of \<lparr>pos = (0, 0), u = (1, 0), length_line = l1, size_line = z1, weight = w1\<rparr>
         \<lparr>pos = (bx, by), u = (0, 1), length_line = l2, size_line = z2, weight = w2\<rparr> = bx"
  by (simp add: s1_of_def det_of_def)

lemma s2_axes:
  "s2_of \<lparr>pos = (0, 0), u = (1, 0), length_line = l1, size_line = z1, weight = w1\<rparr>
         \<lparr>pos = (bx, by), u = (0, 1), length_line = l2, size_line = z2, weight = w2\<rparr> = - by"
  by (simp add: s2_of_def det_of_def)

text \<open>
  Claim C2. When the determinant is not zero, \<^verbatim>\<open>intersect\<close> returns
  \<open>point self s1\<close> exactly when \<open>0 \<le> s1 \<le> length\<close> for \<open>self\<close> and
  \<open>0 \<le> s2 \<le> length\<close> for \<open>other\<close>, each test waived for an operand whose length is
  \<^verbatim>\<open>None\<close>, and nothing otherwise; \<open>s1\<close> and \<open>s2\<close> are the one solution of
  \<open>point self s1 = point other s2\<close>.
\<close>

theorem intersect_nonparallel_cramer:
  assumes "det_of self other \<noteq> 0"
  shows "intersect self other =
           (if (case length_line self of
                  None \<Rightarrow> True
                | Some l \<Rightarrow> 0 \<le> s1_of self other \<and> s1_of self other \<le> l)
               \<and> (case length_line other of
                     None \<Rightarrow> True
                   | Some l \<Rightarrow> 0 \<le> s2_of self other \<and> s2_of self other \<le> l)
            then At (point self (s1_of self other)) else NoResult)
       \<and> point self (s1_of self other) = point other (s2_of self other)
       \<and> (\<forall>a b. point self a = point other b
             \<longrightarrow> a = s1_of self other \<and> b = s2_of self other)"
  using intersect_nonparallel_explicit [OF assms] cramer_solves [OF assms]
    cramer_unique [OF assms]
  by blast

text \<open>
  Instances, for a segment of length 2 along the first axis and segments of length 2
  along the second: a crossing inside both; a crossing beyond the end or before the start
  of either segment (no result); crossings at the start of both, and at the end of both
  (a result); and the same crossings beyond the end with the length of that operand set
  to \<^verbatim>\<open>None\<close> (a result).
\<close>

theorem intersect_nonparallel_cramer_witness:
  "det_of \<lparr>pos = (0, 0), u = (1, 0), length_line = Some 2, size_line = (2, 0), weight = 1\<rparr>
          \<lparr>pos = (1, - 1), u = (0, 1), length_line = Some 2, size_line = (0, 2), weight = 1\<rparr>
     \<noteq> 0
   \<and> intersect \<lparr>pos = (0, 0), u = (1, 0), length_line = Some 2, size_line = (2, 0), weight = 1\<rparr>
        \<lparr>pos = (1, - 1), u = (0, 1), length_line = Some 2, size_line = (0, 2), weight = 1\<rparr>
     = At (1, 0)
   \<and> point \<lparr>pos = (1, - 1), u = (0, 1), length_line = Some 2, size_line = (0, 2), weight = 1\<rparr> 1
     = (1, 0)
   \<and> intersect \<lparr>pos = (0, 0), u = (1, 0), length_line = Some 2, size_line = (2, 0), weight = 1\<rparr>
        \<lparr>pos = (3, - 1), u = (0, 1), length_line = Some 2, size_line = (0, 2), weight = 1\<rparr>
     = NoResult
   \<and> intersect \<lparr>pos = (0, 0), u = (1, 0), length_line = Some 2, size_line = (2, 0), weight = 1\<rparr>
        \<lparr>pos = (- 1, - 1), u = (0, 1), length_line = Some 2, size_line = (0, 2), weight = 1\<rparr>
     = NoResult
   \<and> intersect \<lparr>pos = (0, 0), u = (1, 0), length_line = Some 2, size_line = (2, 0), weight = 1\<rparr>
        \<lparr>pos = (1, - 5), u = (0, 1), length_line = Some 2, size_line = (0, 2), weight = 1\<rparr>
     = NoResult
   \<and> intersect \<lparr>pos = (0, 0), u = (1, 0), length_line = Some 2, size_line = (2, 0), weight = 1\<rparr>
        \<lparr>pos = (1, 1), u = (0, 1), length_line = Some 2, size_line = (0, 2), weight = 1\<rparr>
     = NoResult
   \<and> intersect \<lparr>pos = (0, 0), u = (1, 0), length_line = Some 2, size_line = (2, 0), weight = 1\<rparr>
        \<lparr>pos = (0, 0), u = (0, 1), length_line = Some 2, size_line = (0, 2), weight = 1\<rparr>
     = At (0, 0)
   \<and> intersect \<lparr>pos = (0, 0), u = (1, 0), length_line = Some 2, size_line = (2, 0), weight = 1\<rparr>
        \<lparr>pos = (2, - 2), u = (0, 1), length_line = Some 2, size_line = (0, 2), weight = 1\<rparr>
     = At (2, 0)
   \<and> intersect \<lparr>pos = (0, 0), u = (1, 0), length_line = None, size_line = (2, 0), weight = 1\<rparr>
        \<lparr>pos = (3, - 1), u = (0, 1), length_line = Some 2, size_line = (0, 2), weight = 1\<rparr>
     = At (3, 0)
   \<and> intersect \<lparr>pos = (0, 0), u = (1, 0), length_line = Some 2, size_line = (2, 0), weight = 1\<rparr>
        \<lparr>pos = (1, - 5), u = (0, 1), length_line = None, size_line = (0, 2), weight = 1\<rparr>
     = At (1, 0)"
proof -
  let ?A = "\<lparr>pos = (0, 0), u = (1, 0), length_line = Some 2, size_line = (2, 0), weight = 1\<rparr>"
  let ?L = "\<lparr>pos = (0, 0), u = (1, 0), length_line = None, size_line = (2, 0), weight = 1\<rparr>"
  have d: "det_of \<lparr>pos = p1, u = (1, 0), length_line = l1, size_line = z1, weight = w1\<rparr>
                  \<lparr>pos = p2, u = (0, 1), length_line = l2, size_line = z2, weight = w2\<rparr> \<noteq> 0"
    for p1 p2 l1 l2 z1 z2 w1 w2
    by (simp add: det_axes)
  note T = intersect_nonparallel_cramer [OF d]
  have i1: "intersect ?A \<lparr>pos = (1, - 1), u = (0, 1), length_line = Some 2, size_line = (0, 2),
                           weight = 1\<rparr> = At (1, 0)"
    using T [THEN conjunct1, of "(0, 0)" "Some 2" "(2, 0)" 1 "(1, - 1)" "Some 2" "(0, 2)" 1]
    by (simp add: s1_axes s2_axes point_def)
  have p1: "point \<lparr>pos = (1, - 1), u = (0, 1), length_line = Some 2, size_line = (0, 2),
                    weight = 1\<rparr> 1 = (1, 0)"
    using T [THEN conjunct2, THEN conjunct1, of "(0, 0)" "Some 2" "(2, 0)" 1 "(1, - 1)" "Some 2"
        "(0, 2)" 1]
    by (simp add: s1_axes s2_axes point_def)
  have i2: "intersect ?A \<lparr>pos = (3, - 1), u = (0, 1), length_line = Some 2, size_line = (0, 2),
                           weight = 1\<rparr> = NoResult"
    using T [THEN conjunct1, of "(0, 0)" "Some 2" "(2, 0)" 1 "(3, - 1)" "Some 2" "(0, 2)" 1]
    by (simp add: s1_axes s2_axes point_def)
  have i3: "intersect ?A \<lparr>pos = (- 1, - 1), u = (0, 1), length_line = Some 2, size_line = (0, 2),
                           weight = 1\<rparr> = NoResult"
    using T [THEN conjunct1, of "(0, 0)" "Some 2" "(2, 0)" 1 "(- 1, - 1)" "Some 2" "(0, 2)" 1]
    by (simp add: s1_axes s2_axes point_def)
  have i4: "intersect ?A \<lparr>pos = (1, - 5), u = (0, 1), length_line = Some 2, size_line = (0, 2),
                           weight = 1\<rparr> = NoResult"
    using T [THEN conjunct1, of "(0, 0)" "Some 2" "(2, 0)" 1 "(1, - 5)" "Some 2" "(0, 2)" 1]
    by (simp add: s1_axes s2_axes point_def)
  have i5: "intersect ?A \<lparr>pos = (1, 1), u = (0, 1), length_line = Some 2, size_line = (0, 2),
                           weight = 1\<rparr> = NoResult"
    using T [THEN conjunct1, of "(0, 0)" "Some 2" "(2, 0)" 1 "(1, 1)" "Some 2" "(0, 2)" 1]
    by (simp add: s1_axes s2_axes point_def)
  have i6: "intersect ?A \<lparr>pos = (0, 0), u = (0, 1), length_line = Some 2, size_line = (0, 2),
                           weight = 1\<rparr> = At (0, 0)"
    using T [THEN conjunct1, of "(0, 0)" "Some 2" "(2, 0)" 1 "(0, 0)" "Some 2" "(0, 2)" 1]
    by (simp add: s1_axes s2_axes point_def)
  have i7: "intersect ?A \<lparr>pos = (2, - 2), u = (0, 1), length_line = Some 2, size_line = (0, 2),
                           weight = 1\<rparr> = At (2, 0)"
    using T [THEN conjunct1, of "(0, 0)" "Some 2" "(2, 0)" 1 "(2, - 2)" "Some 2" "(0, 2)" 1]
    by (simp add: s1_axes s2_axes point_def)
  have i8: "intersect ?L \<lparr>pos = (3, - 1), u = (0, 1), length_line = Some 2, size_line = (0, 2),
                           weight = 1\<rparr> = At (3, 0)"
    using T [THEN conjunct1, of "(0, 0)" None "(2, 0)" 1 "(3, - 1)" "Some 2" "(0, 2)" 1]
    by (simp add: s1_axes s2_axes point_def)
  have i9: "intersect ?A \<lparr>pos = (1, - 5), u = (0, 1), length_line = None, size_line = (0, 2),
                           weight = 1\<rparr> = At (1, 0)"
    using T [THEN conjunct1, of "(0, 0)" "Some 2" "(2, 0)" 1 "(1, - 5)" None "(0, 2)" 1]
    by (simp add: s1_axes s2_axes point_def)
  show ?thesis using d i1 p1 i2 i3 i4 i5 i6 i7 i8 i9 by blast
qed

subsection \<open>The closest point of a segment\<close>

lemma sq_distance_point:
  assumes "unit_u self"
  shows "(fst (point self t) - fst q) * (fst (point self t) - fst q)
       + (snd (point self t) - snd q) * (snd (point self t) - snd q)
       = (fst (parameters self q) - t) * (fst (parameters self q) - t)
         + snd (parameters self q) * snd (parameters self q)"
proof -
  obtain px py where p: "pos self = (px, py)" by (cases "pos self")
  obtain ux uy where uu: "u self = (ux, uy)" by (cases "u self")
  obtain qx qy where q: "q = (qx, qy)" by (cases q)
  from assms have un: "ux * ux + uy * uy = 1" by (simp add: unit_u_def uu)
  have "(px + t * ux - qx) * (px + t * ux - qx) + (py + t * uy - qy) * (py + t * uy - qy)
      = (qx - px) * (qx - px) + (qy - py) * (qy - py)
        - 2 * t * (ux * (qx - px) + uy * (qy - py)) + t * t * (ux * ux + uy * uy)"
    by (simp add: algebra_simps)
  moreover have "(ux * (qx - px) + uy * (qy - py) - t) * (ux * (qx - px) + uy * (qy - py) - t)
        + (ux * (qy - py) - uy * (qx - px)) * (ux * (qy - py) - uy * (qx - px))
      = (ux * ux + uy * uy) * ((qx - px) * (qx - px) + (qy - py) * (qy - py))
        - 2 * t * (ux * (qx - px) + uy * (qy - py)) + t * t"
    by (simp add: algebra_simps)
  ultimately show ?thesis
    by (simp add: point_def parameters_def Let_def p uu q un)
qed

lemma distance_point:
  assumes "unit_u self"
  shows "distance q (point self t)
       = sqrt ((fst (parameters self q) - t) * (fst (parameters self q) - t)
               + snd (parameters self q) * snd (parameters self q))"
  unfolding distance_def hypot_def using sq_distance_point [OF assms, of t q] by simp

lemma clamp_nearest:
  fixes s t l c :: real
  assumes "0 \<le> t" "t \<le> l" and c: "c = (if s < 0 then 0 else if s > l then l else s)"
  shows "(s - c) * (s - c) \<le> (s - t) * (s - t)"
proof -
  have "\<bar>s - c\<bar> \<le> \<bar>s - t\<bar>" using assms by (auto split: if_splits)
  then have "\<bar>s - c\<bar> * \<bar>s - c\<bar> \<le> \<bar>s - t\<bar> * \<bar>s - t\<bar>"
    by (intro mult_mono) auto
  then show ?thesis by simp
qed

text \<open>
  Claim C3. For a segment (unit direction, finite length \<open>l > 0\<close>) \<^verbatim>\<open>closest\<close>
  returns the point whose parameter is the projection of the given point clamped to
  \<open>[0, l]\<close>; that point is a point of the segment, and no point of the segment is
  nearer to the given point.
\<close>

theorem closest_on_segment_minimal:
  assumes "unit_u self" and "length_line self = Some l" and "0 < l"
  shows "closest self q =
           point self (if fst (parameters self q) < 0 then 0
                       else if fst (parameters self q) > l then l
                       else fst (parameters self q))
       \<and> (\<exists>c. 0 \<le> c \<and> c \<le> l \<and> closest self q = point self c)
       \<and> (\<forall>t. 0 \<le> t \<and> t \<le> l
             \<longrightarrow> distance q (closest self q) \<le> distance q (point self t))"
proof -
  define s where "s = fst (parameters self q)"
  define c where "c = (if s < 0 then 0 else if s > l then l else s)"
  have cl: "closest self q = point self c"
    using assms(2,3) by (simp add: closest_def Let_def s_def c_def)
  have rng: "0 \<le> c \<and> c \<le> l" using assms(3) by (simp add: c_def)
  have mini: "distance q (closest self q) \<le> distance q (point self t)"
    if "0 \<le> t" "t \<le> l" for t
  proof -
    have "(s - c) * (s - c) \<le> (s - t) * (s - t)"
      using clamp_nearest [OF that c_def] .
    then show ?thesis
      unfolding cl distance_point [OF assms(1)] s_def [symmetric] by simp
  qed
  show ?thesis using cl rng mini unfolding c_def s_def by blast
qed

theorem closest_on_segment_minimal_witness:
  "unit_u \<lparr>pos = (0, 0), u = (1, 0), length_line = Some 1, size_line = (1, 0), weight = 1\<rparr>
   \<and> closest \<lparr>pos = (0, 0), u = (1, 0), length_line = Some 1, size_line = (1, 0), weight = 1\<rparr>
        (2, 3) = (1, 0)
   \<and> distance (2, 3)
        (closest \<lparr>pos = (0, 0), u = (1, 0), length_line = Some 1, size_line = (1, 0),
                   weight = 1\<rparr> (2, 3))
     \<le> distance (2, 3)
        (point \<lparr>pos = (0, 0), u = (1, 0), length_line = Some 1, size_line = (1, 0),
                 weight = 1\<rparr> (1 / 2))"
proof -
  let ?A = "\<lparr>pos = (0, 0), u = (1, 0), length_line = Some 1, size_line = (1, 0), weight = 1\<rparr>"
  have un: "unit_u ?A" by (simp add: unit_u_def)
  have len: "length_line ?A = Some 1" by simp
  have pos1: "(0::real) < 1" by simp
  have par: "fst (parameters ?A (2, 3)) = 2" by (simp add: parameters_def)
  note T = closest_on_segment_minimal [OF un len pos1, of "(2, 3)"]
  have c: "closest ?A (2, 3) = point ?A 1"
    using T by (simp add: par)
  have p: "point ?A 1 = (1, 0)" by (simp add: point_def)
  have "distance (2, 3) (closest ?A (2, 3)) \<le> distance (2, 3) (point ?A (1 / 2))"
    using T [THEN conjunct2, THEN conjunct2, THEN spec, of "1 / 2"] by simp
  then show ?thesis using un c p by simp
qed

subsection \<open>Hit test\<close>

text \<open>
  Claim C9. \<^verbatim>\<open>contains\<close> holds exactly when the absolute value of the second
  parameter is at most \<open>1 + weight / 2\<close>. Moving a point along the direction of the
  line changes the first parameter and leaves the second, and the answer, as they
  were: the first parameter is not tested.
\<close>

theorem contains_perpendicular_only:
  "contains self q = (\<bar>snd (parameters self q)\<bar> \<le> 1 + weight self / 2)
   \<and> parameters self (fst q + t * fst (u self), snd q + t * snd (u self))
       = (fst (parameters self q)
            + t * (fst (u self) * fst (u self) + snd (u self) * snd (u self)),
          snd (parameters self q))
   \<and> contains self (fst q + t * fst (u self), snd q + t * snd (u self)) = contains self q"
  by (simp add: contains_def parameters_def Let_def algebra_simps)

subsection \<open>Intersection of parallel lines\<close>

text \<open>
  What the parallel branch does for two segments: when the second parameter \<open>d\<close> of
  the other anchor is at most the resolution, the result is the middle of the overlap of
  the two parameter ranges, if there is one; when \<open>d\<close> is above the resolution there
  is no result. The test is on \<open>d\<close>, not on its absolute value.
\<close>

lemma intersect_parallel_segments:
  assumes "det_of self other = 0"
    and "length_line self = Some l1" and "length_line other = Some l2"
    and "snd (parameters self (point other 0)) \<le> resolution"
  shows "intersect self other =
     (let s0 = fst (parameters self (point other 0));
          s1 = fst (parameters self (point other l2));
          lo = max 0 (min s0 s1);
          hi = min l1 (max s0 s1)
      in if hi \<ge> lo then At (point self ((lo + hi) / 2)) else NoResult)"
  using assms by (simp add: intersect_def det_of_def Let_def)

lemma intersect_parallel_above:
  assumes "det_of self other = 0"
    and "resolution < snd (parameters self (point other 0))"
  shows "intersect self other = NoResult"
  using assms by (simp add: intersect_def det_of_def Let_def)

text \<open>
  Claim C1, at two parallel segments five units apart: the segment from \<open>(0, 0)\<close> to
  \<open>(1, 0)\<close> and the segment from \<open>(0, -5)\<close> to \<open>(1, -5)\<close>. The second parameter of
  the other anchor is \<open>-5\<close>, which passes the test \<^verbatim>\<open>d <= self.resolution\<close>, and
  \<^verbatim>\<open>intersect\<close> returns the point \<open>(1/2, 0)\<close>.
\<close>

theorem intersect_offset_parallel_segments:
  "Line_init (0, 0) (Some (1, 0)) None
     = Inr \<lparr>pos = (0, 0), u = (1, 0), length_line = Some 1, size_line = (1, 0), weight = 1\<rparr>
   \<and> Line_init (0, -5) (Some (1, -5)) None
     = Inr \<lparr>pos = (0, -5), u = (1, 0), length_line = Some 1, size_line = (1, 0), weight = 1\<rparr>
   \<and> parameters \<lparr>pos = (0, 0), u = (1, 0), length_line = Some 1, size_line = (1, 0), weight = 1\<rparr>
        (0, -5) = (0, -5)
   \<and> intersect \<lparr>pos = (0, 0), u = (1, 0), length_line = Some 1, size_line = (1, 0), weight = 1\<rparr>
        \<lparr>pos = (0, -5), u = (1, 0), length_line = Some 1, size_line = (1, 0), weight = 1\<rparr>
     = At (1 / 2, 0)"
  by (simp add: Line_init_def direction_of_def hypot_def intersect_def parameters_def point_def
      resolution_def Let_def)

subsection \<open>Arrow\<close>

text \<open>
  Claim C5. For a numeric tail \<open>t\<close> the result of \<^verbatim>\<open>Polygon.arrow\<close> is a list
  of seven points and the angle 0. The first point is the origin; the second, third and
  fourth points mirror the seventh, sixth and fifth about the axis (equal first
  coordinates, opposite second coordinates). The width is scaled by \<open>t / 2\<close>, the
  head by \<open>t\<close>, and the barb offset is the scaled head times the flatness over two.
  The last equation is the case of tail 10, width 0.1, head 0.2, flatness 2.
\<close>

theorem arrow_seven_symmetric:
  "Polygon_arrow dl p (Length t) w k f =
     ([(0, 0), (- (k * t), k * t * f / 2), (- (k * t), w * (t / 2)), (- t, w * (t / 2)),
       (- t, - (w * (t / 2))), (- (k * t), - (w * (t / 2))), (- (k * t), - (k * t * f / 2))], 0)
   \<and> length (fst (Polygon_arrow dl p (Length t) w k f)) = 7
   \<and> fst (Polygon_arrow dl p (Length t) w k f) ! 0 = (0, 0)
   \<and> snd (fst (Polygon_arrow dl p (Length t) w k f) ! 1)
       = - snd (fst (Polygon_arrow dl p (Length t) w k f) ! 6)
   \<and> snd (fst (Polygon_arrow dl p (Length t) w k f) ! 2)
       = - snd (fst (Polygon_arrow dl p (Length t) w k f) ! 5)
   \<and> snd (fst (Polygon_arrow dl p (Length t) w k f) ! 3)
       = - snd (fst (Polygon_arrow dl p (Length t) w k f) ! 4)
   \<and> fst (fst (Polygon_arrow dl p (Length t) w k f) ! 1)
       = fst (fst (Polygon_arrow dl p (Length t) w k f) ! 6)
   \<and> fst (fst (Polygon_arrow dl p (Length t) w k f) ! 2)
       = fst (fst (Polygon_arrow dl p (Length t) w k f) ! 5)
   \<and> fst (fst (Polygon_arrow dl p (Length t) w k f) ! 3)
       = fst (fst (Polygon_arrow dl p (Length t) w k f) ! 4)
   \<and> Polygon_arrow dl p (Length 10) (1 / 10) (2 / 10) 2 =
       ([(0, 0), (- 2, 2), (- 2, 1 / 2), (- 10, 1 / 2), (- 10, - (1 / 2)), (- 2, - (1 / 2)),
         (- 2, - 2)], 0)"
  by (simp add: Polygon_arrow_def Let_def)

subsection \<open>Rotation\<close>

lemma rotate_xy_back: "rotate_xy (- a) (rotate_xy a p) = p"
proof -
  define c where "c = cos (a * pi / 180)"
  define s where "s = sin (a * pi / 180)"
  have cs: "c * c + s * s = 1"
    unfolding c_def s_def using sin_cos_squared_add2 [of "a * pi / 180"]
    by (simp add: power2_eq_square)
  have x: "c * (c * fst p - s * snd p) + s * (s * fst p + c * snd p) = (c * c + s * s) * fst p"
    by (simp add: algebra_simps)
  have y: "c * (s * fst p + c * snd p) - s * (c * fst p - s * snd p) = (c * c + s * s) * snd p"
    by (simp add: algebra_simps)
  have "rotate_xy (- a) (rotate_xy a p)
      = (c * (c * fst p - s * snd p) + s * (s * fst p + c * snd p),
         c * (s * fst p + c * snd p) - s * (c * fst p - s * snd p))"
    by (simp add: rotate_xy_def Let_def c_def s_def)
  then show ?thesis by (simp add: x y cs)
qed

lemma rotate_xy_norm:
  "fst (rotate_xy a p) * fst (rotate_xy a p) + snd (rotate_xy a p) * snd (rotate_xy a p)
     = fst p * fst p + snd p * snd p"
proof -
  define c where "c = cos (a * pi / 180)"
  define s where "s = sin (a * pi / 180)"
  have cs: "c * c + s * s = 1"
    unfolding c_def s_def using sin_cos_squared_add2 [of "a * pi / 180"]
    by (simp add: power2_eq_square)
  have "(c * fst p - s * snd p) * (c * fst p - s * snd p)
        + (s * fst p + c * snd p) * (s * fst p + c * snd p)
      = (c * c + s * s) * (fst p * fst p + snd p * snd p)"
    by (simp add: algebra_simps)
  then show ?thesis by (simp add: rotate_xy_def Let_def c_def [symmetric] s_def [symmetric] cs)
qed

lemma transform2d_back:
  "transform2d (transform2d p (- fst c, - snd c) a c) (- fst c, - snd c) (- a) c = p"
  by (simp add: transform2d_def Let_def rotate_xy_back)

lemma transform2dGen_map:
  "transform2dGen pts pre a sh = map (\<lambda>p. transform2d p pre a sh) pts"
  by (simp add: transform2dGen_def transform2d_def)

lemma transform2dGen_back:
  "transform2dGen (transform2dGen pts (- fst c, - snd c) a c) (- fst c, - snd c) (- a) c = pts"
  by (simp add: transform2dGen_map transform2d_back o_def)

lemma transform2d_distance:
  "distance c (transform2d p (- fst c, - snd c) a c) = distance c p"
  using rotate_xy_norm [of a "(fst p - fst c, snd p - snd c)"]
  by (simp add: distance_def hypot_def transform2d_def Let_def)

lemma Polygon_init_Anchor:
  assumes "pts \<noteq> []"
  shows "\<exists>r. Polygon_init pts (Some (Anchor c))
            = Inr \<lparr>poly_pos = c, rect = r, vertices = pts, angle = 0\<rparr>"
proof -
  from assms obtain x xs where "pts = x # xs" by (cases pts) auto
  then show ?thesis by (simp add: Polygon_init_def)
qed

lemma rotate_polygon_Inr:
  assumes "vertices self \<noteq> []"
  shows "\<exists>r. rotate_polygon self a
            = Inr \<lparr>poly_pos = poly_pos self, rect = r,
                   vertices = transform2dGen (vertices self)
                                (- fst (poly_pos self), - snd (poly_pos self)) a (poly_pos self),
                   angle = angle self + a\<rparr>"
proof -
  let ?pts = "transform2dGen (vertices self)
                (- fst (poly_pos self), - snd (poly_pos self)) a (poly_pos self)"
  have "?pts \<noteq> []" using assms by (simp add: transform2dGen_def)
  from Polygon_init_Anchor [OF this, of "poly_pos self"]
  show ?thesis by (auto simp: rotate_polygon_def Polygon_reinit_def Let_def)
qed

lemma rotate_pvector_back:
  "rotate_pvector (rotate_pvector v a (Some c)) (- a) (Some c) = v"
  by (simp add: rotate_pvector_def transform2d_back rotate_xy_back)

lemma csPos_rotate_pvector: "csPos (rotate_pvector v a None) = csPos v"
  by (simp add: rotate_pvector_def csPos_def transform2d_def rotate_xy_def Let_def
      algebra_simps diff_divide_distrib add_divide_distrib)

lemma rotate_pvector_default:
  "rotate_pvector v a None = rotate_pvector v a (Some (csPos v))"
  by (simp add: rotate_pvector_def)

lemma rotate_pvector_back_default:
  "rotate_pvector (rotate_pvector v a None) (- a) None = v"
  using rotate_pvector_back [of v a "csPos v"]
  by (simp add: rotate_pvector_default csPos_rotate_pvector [unfolded rotate_pvector_default])

text \<open>
  Claim C6. On a polygon with at least one vertex, \<^verbatim>\<open>rotate(a)\<close> and then
  \<^verbatim>\<open>rotate(-a)\<close> both return, and the vertices, the anchor and the cumulative
  angle are as before. The first rotation moves every vertex by the rotation about the
  anchor, which keeps its distance from the anchor. A PVector rotated by \<open>a\<close> and then
  by \<open>-a\<close> about the same pivot, or about its own midpoint both times, is the vector
  it was, tail included.
\<close>

theorem rotate_round_trip:
  assumes "vertices self \<noteq> []"
  shows "(\<exists>P1 P2. rotate_polygon self a = Inr P1 \<and> rotate_polygon P1 (- a) = Inr P2
            \<and> vertices P2 = vertices self \<and> poly_pos P2 = poly_pos self
            \<and> angle P2 = angle self
            \<and> poly_pos P1 = poly_pos self \<and> length (vertices P1) = length (vertices self)
            \<and> (\<forall>i < length (vertices self).
                  vertices P1 ! i
                    = transform2d (vertices self ! i)
                        (- fst (poly_pos self), - snd (poly_pos self)) a (poly_pos self)
                  \<and> distance (poly_pos self) (vertices P1 ! i)
                    = distance (poly_pos self) (vertices self ! i)))
       \<and> rotate_pvector (rotate_pvector v a (Some c)) (- a) (Some c) = v
       \<and> rotate_pvector (rotate_pvector v a None) (- a) None = v"
proof -
  let ?c = "poly_pos self"
  let ?pts = "transform2dGen (vertices self) (- fst ?c, - snd ?c) a ?c"
  from rotate_polygon_Inr [OF assms, of a] obtain r1 where
    P1: "rotate_polygon self a
           = Inr \<lparr>poly_pos = ?c, rect = r1, vertices = ?pts, angle = angle self + a\<rparr>"
    by blast
  let ?P1 = "\<lparr>poly_pos = ?c, rect = r1, vertices = ?pts, angle = angle self + a\<rparr>"
  have ne: "vertices ?P1 \<noteq> []" using assms by (simp add: transform2dGen_def)
  from rotate_polygon_Inr [OF ne, of "- a"] obtain r2 where
    P2: "rotate_polygon ?P1 (- a)
           = Inr \<lparr>poly_pos = ?c, rect = r2, vertices = vertices self, angle = angle self\<rparr>"
    by (auto simp: transform2dGen_back)
  have v: "\<forall>i < length (vertices self).
             vertices ?P1 ! i = transform2d (vertices self ! i) (- fst ?c, - snd ?c) a ?c
             \<and> distance ?c (vertices ?P1 ! i) = distance ?c (vertices self ! i)"
    by (simp add: transform2dGen_map transform2d_distance)
  have len: "length (vertices ?P1) = length (vertices self)"
    by (simp add: transform2dGen_def)
  have poly: "\<exists>P1 P2. rotate_polygon self a = Inr P1 \<and> rotate_polygon P1 (- a) = Inr P2
            \<and> vertices P2 = vertices self \<and> poly_pos P2 = poly_pos self
            \<and> angle P2 = angle self
            \<and> poly_pos P1 = poly_pos self \<and> length (vertices P1) = length (vertices self)
            \<and> (\<forall>i < length (vertices self).
                  vertices P1 ! i
                    = transform2d (vertices self ! i)
                        (- fst (poly_pos self), - snd (poly_pos self)) a (poly_pos self)
                  \<and> distance (poly_pos self) (vertices P1 ! i)
                    = distance (poly_pos self) (vertices self ! i))"
    apply (rule exI [of _ ?P1])
    apply (rule exI [of _ "\<lparr>poly_pos = ?c, rect = r2, vertices = vertices self, angle = angle self\<rparr>"])
    using P1 P2 len by (simp add: transform2dGen_map transform2d_distance)
  show ?thesis using poly rotate_pvector_back rotate_pvector_back_default by blast
qed

theorem rotate_round_trip_witness:
  "vertices \<lparr>poly_pos = (0, 0), rect = ((0, 0), (1, 1)),
             vertices = [(0, 0), (1, 0), (1, 1)], angle = 0\<rparr> \<noteq> []
   \<and> (\<exists>P1 P2. rotate_polygon \<lparr>poly_pos = (0, 0), rect = ((0, 0), (1, 1)),
                  vertices = [(0, 0), (1, 0), (1, 1)], angle = 0\<rparr> 90 = Inr P1
         \<and> vertices P1 = [(0, 0), (0, 1), (- 1, 1)]
         \<and> rotate_polygon P1 (- 90) = Inr P2
         \<and> vertices P2 = [(0, 0), (1, 0), (1, 1)] \<and> angle P2 = 0)
   \<and> rotate_pvector (rotate_pvector \<lparr>vec = (1, 0), tail = (2, 0)\<rparr> 90 (Some (0, 0))) (- 90)
        (Some (0, 0)) = \<lparr>vec = (1, 0), tail = (2, 0)\<rparr>"
proof -
  let ?S = "\<lparr>poly_pos = (0, 0), rect = ((0, 0), (1, 1)),
             vertices = [(0, 0), (1, 0), (1, 1)], angle = 0\<rparr>"
  have ne: "vertices ?S \<noteq> []" by simp
  note T = rotate_round_trip [OF ne, of 90 "\<lparr>vec = (1, 0), tail = (2, 0)\<rparr>" "(0, 0)"]
  from T obtain P1 P2 where r1: "rotate_polygon ?S 90 = Inr P1"
    and r2: "rotate_polygon P1 (- 90) = Inr P2"
    and v2: "vertices P2 = vertices ?S" and a2: "angle P2 = angle ?S"
    by blast
  have q: "(90::real) * pi / 180 = pi / 2" by simp
  have "rotate_polygon ?S 90
      = Inr \<lparr>poly_pos = (0, 0), rect = ((- 1, 0), (1, 1)),
             vertices = [(0, 0), (0, 1), (- 1, 1)], angle = 90\<rparr>"
    by (simp add: rotate_polygon_def Polygon_reinit_def Polygon_init_def transform2dGen_def
        rotate_xy_def q Let_def)
  with r1 have v1: "vertices P1 = [(0, 0), (0, 1), (- 1, 1)]" by auto
  have pv: "rotate_pvector (rotate_pvector \<lparr>vec = (1, 0), tail = (2, 0)\<rparr> 90 (Some (0, 0)))
              (- 90) (Some (0, 0)) = \<lparr>vec = (1, 0), tail = (2, 0)\<rparr>"
    using T by blast
  show ?thesis using ne r1 r2 v1 v2 a2 pv by auto
qed

subsection \<open>Negative magnitude\<close>

lemma deg_plus_180: "(theta + 180) * pi / 180 = theta * pi / 180 + pi"
  by (simp add: field_simps)

text \<open>
  Claim C10. With a negative magnitude \<open>m\<close> the constructor builds the vector that
  it builds from \<open>- m\<close> and \<open>theta + 180\<close>: the components are \<open>m\<close> times the
  cosine and the sine of \<open>theta\<close> degrees, and the tail is the default.
\<close>

theorem PVector_init_negative_mag:
  assumes "m < 0"
  shows "PVector_init (Some (Number m)) theta xy0
           = PVector_init (Some (Number (- m))) (theta + 180) xy0
       \<and> vec (PVector_init (Some (Number m)) theta xy0)
           = (m * cos (theta * pi / 180), m * sin (theta * pi / 180))
       \<and> tail (PVector_init (Some (Number m)) theta xy0) = (0, 0)"
  using assms by (simp add: PVector_init_def from_polar_def deg_plus_180)

theorem PVector_init_negative_mag_witness:
  "(- 2 :: real) < 0
   \<and> PVector_init (Some (Number (- 2))) 0 (0, 0) = PVector_init (Some (Number 2)) 180 (0, 0)
   \<and> vec (PVector_init (Some (Number (- 2))) 0 (0, 0)) = (- 2, 0)"
proof -
  have n: "(- 2 :: real) < 0" by simp
  note T = PVector_init_negative_mag [OF n, of 0 "(0, 0)"]
  have a: "PVector_init (Some (Number (- 2))) 0 (0, 0) = PVector_init (Some (Number 2)) 180 (0, 0)"
    using T [THEN conjunct1] by simp
  have b: "vec (PVector_init (Some (Number (- 2))) 0 (0, 0)) = (- 2, 0)"
    using T [THEN conjunct2, THEN conjunct1] by simp
  show ?thesis using n a b by blast
qed

subsection \<open>Tip to tail\<close>

lemma tipToTail_loop_frame:
  "a \<notin> set vs \<Longrightarrow> tipToTail_loop h v0 vs a = h a"
  by (induction vs arbitrary: h v0) auto

lemma tipToTail_loop_vec: "vec (tipToTail_loop h v0 vs a) = vec (h a)"
  by (induction vs arbitrary: h v0) auto

lemma tipToTail_loop_chain:
  assumes "distinct (v0 # vs)" and "Suc i < length (v0 # vs)"
  shows "tail (tipToTail_loop h v0 vs ((v0 # vs) ! Suc i))
       = tip (tipToTail_loop h v0 vs ((v0 # vs) ! i))"
  using assms
proof (induction vs arbitrary: h v0 i)
  case Nil
  then show ?case by simp
next
  case (Cons v rest)
  let ?h1 = "h(v := (h v)\<lparr>tail := tip (h v0)\<rparr>)"
  have d: "distinct (v # rest)" using Cons.prems(1) by simp
  show ?case
  proof (cases i)
    case 0
    have nv: "v \<notin> set rest" and n0: "v0 \<notin> set rest" and ne: "v0 \<noteq> v"
      using Cons.prems(1) by auto
    have "tipToTail_loop ?h1 v rest v = ?h1 v" using nv by (rule tipToTail_loop_frame)
    moreover have "tipToTail_loop ?h1 v rest v0 = ?h1 v0" using n0 by (rule tipToTail_loop_frame)
    ultimately show ?thesis using 0 ne by (simp add: tip_def)
  next
    case (Suc j)
    have "Suc j < length (v # rest)" using Cons.prems(2) Suc by simp
    then have "tail (tipToTail_loop ?h1 v rest ((v # rest) ! Suc j))
             = tip (tipToTail_loop ?h1 v rest ((v # rest) ! j))"
      by (rule Cons.IH [OF d])
    then show ?thesis using Suc by simp
  qed
qed

lemma tipToTail_frame: "a \<notin> set vecs \<Longrightarrow> tipToTail h vecs a = h a"
proof (cases vecs)
  case Nil
  then show ?thesis by (simp add: tipToTail_def)
next
  case (Cons v0 vs)
  assume "a \<notin> set vecs"
  then have "a \<notin> set vs" using Cons by simp
  then show ?thesis using Cons by (simp add: tipToTail_def tipToTail_loop_frame)
qed

lemma tipToTail_first:
  assumes "distinct vecs" and "vecs \<noteq> []"
  shows "tipToTail h vecs (hd vecs) = h (hd vecs)"
proof -
  from assms(2) obtain v0 vs where c: "vecs = v0 # vs" by (cases vecs) auto
  have "v0 \<notin> set vs" using assms(1) c by simp
  then show ?thesis using c by (simp add: tipToTail_def tipToTail_loop_frame)
qed

lemma tipToTail_chain:
  assumes "distinct vecs" and "Suc i < length vecs"
  shows "tail (tipToTail h vecs (vecs ! Suc i)) = tip (tipToTail h vecs (vecs ! i))"
proof -
  from assms(2) obtain v0 vs where c: "vecs = v0 # vs" by (cases vecs) auto
  have l: "1 < length vecs" using assms(2) by simp
  have "tipToTail h vecs = tipToTail_loop h v0 vs" using l c by (simp add: tipToTail_def)
  then show ?thesis using tipToTail_loop_chain [of v0 vs i h] assms c by simp
qed

lemma tipToTail_vec: "vec (tipToTail h vecs a) = vec (h a)"
  by (simp add: tipToTail_def tipToTail_loop_vec)

lemmas parse_defs =
  parse_def is_space_def tipToTail_def new_store_def tip_def upt_rec parse_one_def
  re_match_def re_list_def num_rx_def sign_rx_def digits_def py_float_def is_digit_def
  digits_value_def two_floats_def py_index_def PVector_init_def truthy_def Let_def
  parse_loop.simps

lemma parse_example:
  "parse ''(1,0)+(0,1)'' = Inr [\<lparr>vec = (1, 0), tail = (0, 0)\<rparr>, \<lparr>vec = (0, 1), tail = (1, 0)\<rparr>]"
  by (simp add: parse_defs)

lemma sum_example:
  "PVector_sum [\<lparr>vec = (1, 0), tail = (0, 0)\<rparr>, \<lparr>vec = (0, 1), tail = (1, 0)\<rparr>]
     = \<lparr>vec = (1, 1), tail = (0, 0)\<rparr>"
  by (simp add: PVector_sum_def PVector_init_def)

text \<open>
  Claim C8, as the code has it. When the objects of the list are pairwise distinct,
  \<^verbatim>\<open>tipToTail\<close> leaves the tail of the first one as it was, and afterwards the
  tail of every later one is the tip of the one before it; the components of the
  vectors and the objects outside the list are untouched. \<^verbatim>\<open>parse\<close> of
  \<^verbatim>\<open>(1,0)+(0,1)\<close> gives two vectors, from \<open>(0, 0)\<close> to \<open>(1, 0)\<close> and from
  \<open>(1, 0)\<close> to \<open>(1, 1)\<close>, and their sum is \<open>(1, 1)\<close>.
\<close>

theorem tipToTail_distinct:
  assumes "distinct vecs"
  shows "(vecs = [] \<or> tail (tipToTail h vecs (hd vecs)) = tail (h (hd vecs)))
       \<and> (\<forall>i. Suc i < length vecs
             \<longrightarrow> tail (tipToTail h vecs (vecs ! Suc i)) = tip (tipToTail h vecs (vecs ! i)))
       \<and> (\<forall>a. vec (tipToTail h vecs a) = vec (h a))
       \<and> (\<forall>a. a \<notin> set vecs \<longrightarrow> tipToTail h vecs a = h a)
       \<and> parse ''(1,0)+(0,1)''
           = Inr [\<lparr>vec = (1, 0), tail = (0, 0)\<rparr>, \<lparr>vec = (0, 1), tail = (1, 0)\<rparr>]
       \<and> map tip [\<lparr>vec = (1, 0), tail = (0, 0)\<rparr>, \<lparr>vec = (0, 1), tail = (1, 0)\<rparr>]
           = [(1, 0), (1, 1)]
       \<and> vec (PVector_sum [\<lparr>vec = (1, 0), tail = (0, 0)\<rparr>, \<lparr>vec = (0, 1), tail = (1, 0)\<rparr>])
           = (1, 1)"
proof -
  have a: "vecs = [] \<or> tail (tipToTail h vecs (hd vecs)) = tail (h (hd vecs))"
    by (cases "vecs = []") (simp_all add: tipToTail_first [OF assms])
  have b: "\<forall>i. Suc i < length vecs
             \<longrightarrow> tail (tipToTail h vecs (vecs ! Suc i)) = tip (tipToTail h vecs (vecs ! i))"
    using tipToTail_chain [OF assms] by blast
  have c: "\<forall>a. a \<notin> set vecs \<longrightarrow> tipToTail h vecs a = h a"
    using tipToTail_frame by blast
  have t: "map tip [\<lparr>vec = (1, 0), tail = (0, 0)\<rparr>, \<lparr>vec = (0, 1), tail = (1, 0)\<rparr>]
           = [(1, 0), (1, 1)]"
    by (simp add: tip_def)
  show ?thesis using a b c t tipToTail_vec parse_example sum_example by simp
qed

theorem tipToTail_distinct_witness:
  "distinct [0, 1 :: nat]
   \<and> tail (tipToTail (new_store [\<lparr>vec = (1, 0), tail = (5, 5)\<rparr>, \<lparr>vec = (0, 1), tail = (7, 7)\<rparr>])
             [0, 1] 0) = (5, 5)
   \<and> tail (tipToTail (new_store [\<lparr>vec = (1, 0), tail = (5, 5)\<rparr>, \<lparr>vec = (0, 1), tail = (7, 7)\<rparr>])
             [0, 1] 1) = (6, 5)"
proof -
  let ?h = "new_store [\<lparr>vec = (1, 0), tail = (5, 5)\<rparr>, \<lparr>vec = (0, 1), tail = (7, 7)\<rparr>]"
  have d: "distinct [0, 1 :: nat]" by simp
  note T = tipToTail_distinct [OF d, of ?h]
  have a: "tail (tipToTail ?h [0, 1] 0) = (5, 5)"
    using T [THEN conjunct1] by (simp add: new_store_def)
  have "tail (tipToTail ?h [0, 1] 1) = tip (tipToTail ?h [0, 1] 0)"
    using T [THEN conjunct2, THEN conjunct1, THEN spec, of 0] by simp
  moreover have "vec (tipToTail ?h [0, 1] 0) = (1, 0)"
    using T [THEN conjunct2, THEN conjunct2, THEN conjunct1, THEN spec, of 0]
    by (simp add: new_store_def)
  ultimately have b: "tail (tipToTail ?h [0, 1] 1) = (6, 5)"
    using a by (simp add: tip_def)
  show ?thesis using d a b by blast
qed

text \<open>
  Claim C8 as the spec states it, for every list, fails when one object stands twice in
  the list: for \<^verbatim>\<open>v = PVector(xy=(1,0))\<close> and the list \<^verbatim>\<open>[v, v]\<close> the
  assignment \<^verbatim>\<open>v.tail = v0.tip\<close> moves the tail of the first vector from
  \<open>(0, 0)\<close> to \<open>(1, 0)\<close>, and its tip is then \<open>(2, 0)\<close>, not the tail of the
  second.
\<close>

theorem tipToTail_repeated_object:
  "tail (new_store [\<lparr>vec = (1, 0), tail = (0, 0)\<rparr>] 0) = (0, 0)
   \<and> tail (tipToTail (new_store [\<lparr>vec = (1, 0), tail = (0, 0)\<rparr>]) [0, 0] 0) = (1, 0)
   \<and> tip (tipToTail (new_store [\<lparr>vec = (1, 0), tail = (0, 0)\<rparr>]) [0, 0] 0) = (2, 0)"
  by (simp add: tipToTail_def new_store_def tip_def)

subsection \<open>Parsing\<close>

text \<open>
  Claim C7, at strings that end in a sign. In \<^verbatim>\<open>(1,0)+\<close> the text left after the
  term \<^verbatim>\<open>(1,0)\<close> is the sign \<^verbatim>\<open>+\<close>, which is no term; the loop removes the sign
  before it looks for a term, \<^verbatim>\<open>expr\<close> is empty when the loop ends, and
  \<^verbatim>\<open>parse\<close> returns the one vector instead of raising. A lone sign parses to the
  empty list. Any other text left over raises.
\<close>

theorem parse_dangling_sign:
  "parse ''(1,0)+'' = Inr [\<lparr>vec = (1, 0), tail = (0, 0)\<rparr>]
   \<and> parse ''+'' = Inr []
   \<and> parse ''(1,0)x'' = Inl (parse_error ''(1,0)x'')"
  by (simp add: parse_defs)

text \<open>
  A term that the pattern accepts and \<^verbatim>\<open>float\<close> rejects raises the ValueError of
  \<^verbatim>\<open>float\<close>; the polar form goes through \<^verbatim>\<open>from_polar\<close>.
\<close>

lemma parse_float_error: "parse ''(1e,2)'' = Inl (float_error ''1e'')"
  by (simp add: parse_defs)

lemma parse_polar: "parse ''1@0'' = Inr [\<lparr>vec = (1, 0), tail = (0, 0)\<rparr>]"
  by (simp add: parse_defs from_polar_def)

end
